theory Spec2Isabelle
  imports Complex_Main
begin

section \<open>Data model (frontend/src/types.ts)\<close>

text \<open>
  The TypeScript interfaces become records. A field of type \<open>number\<close> is a \<open>real\<close>;
  which reals are double-precision numbers, and how the arithmetic of the code rounds,
  is defined further down. An optional field is an \<open>option\<close>. The fields \<open>id\<close> and
  \<open>name\<close>, which several interfaces share, carry the interface as a suffix.

  \<open>concession_type\<close> is declared as a union of four string literals, but the value arrives
  from JSON (and from a select box through \<open>as any\<close>) and the code compares it with
  \<open>===\<close> against string literals, so it is a \<open>string\<close> here.
\<close>

record Floorplan =
  id_fp :: string
  property_id :: string
  name_fp :: string
  unit_type :: string
  unit_count :: real
  square_footage :: real
  floor_level :: "string option"
  view_type :: "string option"
  base_rent :: real
  amenity_rent :: real

record ScenarioResults =
  total_annual_revenue :: real
  avg_rent_per_unit :: real
  revenue_per_sqft :: real
  weighted_avg_rent :: real

record Scenario =
  id_sc :: string
  analysis_id :: string
  name_sc :: string
  base_rent_pct_adj :: real
  base_rent_dollar_adj :: real
  amenity_rent_pct_adj :: real
  amenity_rent_dollar_adj :: real
  concession_type :: string
  concession_value :: real
  results :: "ScenarioResults option"
  created_at :: string

text \<open>
  The five numbers that each pass over a floorplan computes before it formats them
  (the local variables of the two \<open>map\<close> callbacks in App.tsx).
\<close>

record FloorplanFigures =
  adjustedBase :: real
  adjustedAmenity :: real
  grossRent :: real
  concessionAmount :: real
  netEffective :: real

section \<open>The per-floorplan calculation (frontend/src/App.tsx)\<close>

text \<open>
  The calculation is transcribed twice. In this section \<open>+\<close>, \<open>-\<close>, \<open>*\<close> and \<open>/\<close> are
  the exact operations on the reals: enough for the properties on which rounding does not
  bear (which expression is computed, which branch fires, arithmetic with 0 and 1). The
  next two sections transcribe the same lines with every operation rounded as the code's
  double-precision arithmetic rounds it; the properties on which rounding bears are
  stated there, and the others are shown at the end to hold there too.
\<close>

text \<open>
  The callback of \<open>selectedProperty.floorplans.map\<close> inside \<open>exportToPDF\<close>
  (App.tsx, lines 211 to 228). \<open>concessionAmount\<close> and \<open>netEffective\<close> start at
  \<open>0\<close> and \<open>grossRent\<close> and are overwritten by the first branch of the
  \<open>if\<close>/\<open>else if\<close> chain whose string comparison succeeds.
\<close>

definition exportToPDF_figures :: "Floorplan \<Rightarrow> Scenario \<Rightarrow> FloorplanFigures" where
  "exportToPDF_figures fp currentScenario =
    (let aBase = (base_rent fp * (1 + base_rent_pct_adj currentScenario))
                   + base_rent_dollar_adj currentScenario;
         aAmenity = (amenity_rent fp * (1 + amenity_rent_pct_adj currentScenario))
                   + amenity_rent_dollar_adj currentScenario;
         gross = aBase + aAmenity
     in
       if concession_type currentScenario = ''percentage'' then
         (let cAmount = gross * (concession_value currentScenario / 100)
          in \<lparr>adjustedBase = aBase, adjustedAmenity = aAmenity, grossRent = gross,
               concessionAmount = cAmount, netEffective = gross - cAmount\<rparr>)
       else if concession_type currentScenario = ''dollar'' then
         (let cAmount = concession_value currentScenario
          in \<lparr>adjustedBase = aBase, adjustedAmenity = aAmenity, grossRent = gross,
               concessionAmount = cAmount, netEffective = max 0 (gross - cAmount)\<rparr>)
       else if concession_type currentScenario = ''free_months'' then
         \<lparr>adjustedBase = aBase, adjustedAmenity = aAmenity, grossRent = gross,
          concessionAmount = gross * (concession_value currentScenario / 12),
          netEffective = gross * ((12 - concession_value currentScenario) / 12)\<rparr>
       else
         \<lparr>adjustedBase = aBase, adjustedAmenity = aAmenity, grossRent = gross,
          concessionAmount = 0, netEffective = gross\<rparr>)"

text \<open>
  The callback of \<open>selectedProperty.floorplans.map\<close> in the table body that \<open>App\<close>
  renders (App.tsx, lines 686 to 702), translated from its own text.
\<close>

definition App_figures :: "Floorplan \<Rightarrow> Scenario \<Rightarrow> FloorplanFigures" where
  "App_figures fp currentScenario =
    (let aBase = (base_rent fp * (1 + base_rent_pct_adj currentScenario))
                   + base_rent_dollar_adj currentScenario;
         aAmenity = (amenity_rent fp * (1 + amenity_rent_pct_adj currentScenario))
                   + amenity_rent_dollar_adj currentScenario;
         gross = aBase + aAmenity
     in
       if concession_type currentScenario = ''percentage'' then
         (let cAmount = gross * (concession_value currentScenario / 100)
          in \<lparr>adjustedBase = aBase, adjustedAmenity = aAmenity, grossRent = gross,
               concessionAmount = cAmount, netEffective = gross - cAmount\<rparr>)
       else if concession_type currentScenario = ''dollar'' then
         (let cAmount = concession_value currentScenario
          in \<lparr>adjustedBase = aBase, adjustedAmenity = aAmenity, grossRent = gross,
               concessionAmount = cAmount, netEffective = max 0 (gross - cAmount)\<rparr>)
       else if concession_type currentScenario = ''free_months'' then
         \<lparr>adjustedBase = aBase, adjustedAmenity = aAmenity, grossRent = gross,
          concessionAmount = gross * (concession_value currentScenario / 12),
          netEffective = gross * ((12 - concession_value currentScenario) / 12)\<rparr>
       else
         \<lparr>adjustedBase = aBase, adjustedAmenity = aAmenity, grossRent = gross,
          concessionAmount = 0, netEffective = gross\<rparr>)"

text \<open>
  The scenario each pass works on. \<open>exportToPDF\<close> takes \<open>scenarios[activeTab]\<close>; the
  table takes the scenario being edited when its id is the one of the active tab
  (\<open>editingScenario?.id === scenarios[activeTab].id\<close>, with \<open>editingScenario\<close> possibly
  \<open>null\<close>) and \<open>scenarios[activeTab]\<close> otherwise.
\<close>

definition App_currentScenario :: "Scenario option \<Rightarrow> Scenario \<Rightarrow> Scenario" where
  "App_currentScenario editingScenario active =
    (case editingScenario of
       None \<Rightarrow> active
     | Some e \<Rightarrow> if id_sc e = id_sc active then e else active)"

text \<open>The two passes over the floorplans of the selected property.\<close>

definition exportToPDF_floorplanData :: "Floorplan list \<Rightarrow> Scenario \<Rightarrow> FloorplanFigures list" where
  "exportToPDF_floorplanData floorplans active =
     map (\<lambda>fp. exportToPDF_figures fp active) floorplans"

definition App_floorplanRows ::
  "Floorplan list \<Rightarrow> Scenario option \<Rightarrow> Scenario \<Rightarrow> FloorplanFigures list" where
  "App_floorplanRows floorplans editingScenario active =
     map (\<lambda>fp. App_figures fp (App_currentScenario editingScenario active)) floorplans"

section \<open>Double-precision arithmetic\<close>

text \<open>
  A JavaScript \<open>number\<close> is an IEEE 754 binary64 value, and every arithmetic operation
  returns the exact result rounded to the nearest such value, ties going to the one with
  an even significand. \<open>round_half_even\<close> is that rounding to an integer.
\<close>

definition round_half_even :: "real \<Rightarrow> int" where
  "round_half_even y =
    (let f = \<lfloor>y\<rfloor>; d = y - of_int f
     in if d < 1 / 2 then f
        else if 1 / 2 < d then f + 1
        else if even f then f else f + 1)"

text \<open>
  The binade of a positive number is the exponent \<open>k\<close> with \<open>2^k \<le> x < 2^(k + 1)\<close>,
  found by halving a number that is at least 1 and doubling one that is below 1.
\<close>

function binade_up :: "real \<Rightarrow> int" where
  "binade_up x = (if x < 2 then 0 else binade_up (x / 2) + 1)"
  by pat_completeness auto
termination
proof (relation "measure (\<lambda>x. nat \<lfloor>x\<rfloor>)")
  show "wf (measure (\<lambda>x::real. nat \<lfloor>x\<rfloor>))" by simp
next
  fix x :: real
  assume "\<not> x < 2"
  then have "\<lfloor>x / 2\<rfloor> < \<lfloor>x\<rfloor>" by linarith
  moreover have "0 < \<lfloor>x\<rfloor>" using \<open>\<not> x < 2\<close> by linarith
  ultimately show "(x / 2, x) \<in> measure (\<lambda>x. nat \<lfloor>x\<rfloor>)" by simp
qed

function binade_down :: "real \<Rightarrow> int" where
  "binade_down x = (if x \<le> 0 \<or> 1 \<le> x then 0 else binade_down (2 * x) - 1)"
  by pat_completeness auto
termination
proof (relation "measure (\<lambda>x. nat \<lfloor>1 / x\<rfloor>)")
  show "wf (measure (\<lambda>x::real. nat \<lfloor>1 / x\<rfloor>))" by simp
next
  fix x :: real
  assume a: "\<not> (x \<le> 0 \<or> 1 \<le> x)"
  define t where "t = 1 / x"
  have t: "1 < t" using a by (simp add: t_def)
  have "\<lfloor>t / 2\<rfloor> < \<lfloor>t\<rfloor>"
  proof (cases "t < 2")
    case True
    then have "\<lfloor>t / 2\<rfloor> = 0" and "\<lfloor>t\<rfloor> = 1" using t by linarith+
    then show ?thesis by simp
  next
    case False
    then show ?thesis by linarith
  qed
  then have lt: "\<lfloor>1 / (2 * x)\<rfloor> < \<lfloor>1 / x\<rfloor>"
    unfolding t_def by (simp only: divide_divide_eq_left mult.commute)
  have pos: "0 < \<lfloor>1 / x\<rfloor>" using t unfolding t_def by linarith
  show "(2 * x, x) \<in> measure (\<lambda>x. nat \<lfloor>1 / x\<rfloor>)"
    unfolding in_measure using lt pos by linarith
qed

text \<open>
  The two recursions are unfolded on demand only; as rewrite rules they would not stop on
  an argument that is not a numeral.
\<close>

declare binade_up.simps [simp del] binade_down.simps [simp del]

definition binade :: "real \<Rightarrow> int" where
  "binade x = (if 1 \<le> x then binade_up x else binade_down x)"

text \<open>
  The spacing of the doubles around \<open>x\<close> is \<open>2^(quantum x)\<close>: 53 significant bits in the
  binade of \<open>x\<close>, and never finer than \<open>2^(-1074)\<close>, the spacing of the subnormal numbers.
\<close>

definition quantum :: "real \<Rightarrow> int" where
  "quantum x = max (binade \<bar>x\<bar> - 52) (- 1074)"

text \<open>
  \<open>binary64 x\<close> is the double nearest to \<open>x\<close>. The exponent is not bounded above: a
  result beyond the largest finite double, which the code turns into \<open>Infinity\<close>, is
  not modelled, nor are \<open>NaN\<close> and the sign of zero.
\<close>

definition binary64 :: "real \<Rightarrow> real" where
  "binary64 x = (if x = 0 then 0
     else of_int (round_half_even (x / 2 powi quantum x)) * 2 powi quantum x)"

text \<open>
  The operations of the code on doubles, and the reals that are doubles. The calculation
  divides by the literals \<open>100\<close> and \<open>12\<close> only; a division by zero, which the code
  answers with \<open>Infinity\<close> or \<open>NaN\<close>, does not occur in it.
\<close>

definition plus64 :: "real \<Rightarrow> real \<Rightarrow> real" where
  "plus64 x y = binary64 (x + y)"

definition minus64 :: "real \<Rightarrow> real \<Rightarrow> real" where
  "minus64 x y = binary64 (x - y)"

definition times64 :: "real \<Rightarrow> real \<Rightarrow> real" where
  "times64 x y = binary64 (x * y)"

definition divide64 :: "real \<Rightarrow> real \<Rightarrow> real" where
  "divide64 x y = binary64 (x / y)"

definition is_binary64 :: "real \<Rightarrow> bool" where
  "is_binary64 x = (binary64 x = x)"

section \<open>The per-floorplan calculation in double-precision arithmetic\<close>

text \<open>
  The callback inside \<open>exportToPDF\<close> (App.tsx, lines 211 to 228) once more, each \<open>+\<close>,
  \<open>-\<close>, \<open>*\<close> and \<open>/\<close> of the source rounded. \<open>Math.max\<close> and the literals \<open>0\<close>, \<open>1\<close>,
  \<open>12\<close> and \<open>100\<close> are exact.
\<close>

definition exportToPDF_figures64 :: "Floorplan \<Rightarrow> Scenario \<Rightarrow> FloorplanFigures" where
  "exportToPDF_figures64 fp currentScenario =
    (let aBase = plus64 (times64 (base_rent fp) (plus64 1 (base_rent_pct_adj currentScenario)))
                   (base_rent_dollar_adj currentScenario);
         aAmenity = plus64 (times64 (amenity_rent fp)
                              (plus64 1 (amenity_rent_pct_adj currentScenario)))
                      (amenity_rent_dollar_adj currentScenario);
         gross = plus64 aBase aAmenity
     in
       if concession_type currentScenario = ''percentage'' then
         (let cAmount = times64 gross (divide64 (concession_value currentScenario) 100)
          in \<lparr>adjustedBase = aBase, adjustedAmenity = aAmenity, grossRent = gross,
               concessionAmount = cAmount, netEffective = minus64 gross cAmount\<rparr>)
       else if concession_type currentScenario = ''dollar'' then
         (let cAmount = concession_value currentScenario
          in \<lparr>adjustedBase = aBase, adjustedAmenity = aAmenity, grossRent = gross,
               concessionAmount = cAmount, netEffective = max 0 (minus64 gross cAmount)\<rparr>)
       else if concession_type currentScenario = ''free_months'' then
         \<lparr>adjustedBase = aBase, adjustedAmenity = aAmenity, grossRent = gross,
          concessionAmount = times64 gross (divide64 (concession_value currentScenario) 12),
          netEffective =
            times64 gross (divide64 (minus64 12 (concession_value currentScenario)) 12)\<rparr>
       else
         \<lparr>adjustedBase = aBase, adjustedAmenity = aAmenity, grossRent = gross,
          concessionAmount = 0, netEffective = gross\<rparr>)"

text \<open>The callback of the table body (App.tsx, lines 686 to 702), likewise.\<close>

definition App_figures64 :: "Floorplan \<Rightarrow> Scenario \<Rightarrow> FloorplanFigures" where
  "App_figures64 fp currentScenario =
    (let aBase = plus64 (times64 (base_rent fp) (plus64 1 (base_rent_pct_adj currentScenario)))
                   (base_rent_dollar_adj currentScenario);
         aAmenity = plus64 (times64 (amenity_rent fp)
                              (plus64 1 (amenity_rent_pct_adj currentScenario)))
                      (amenity_rent_dollar_adj currentScenario);
         gross = plus64 aBase aAmenity
     in
       if concession_type currentScenario = ''percentage'' then
         (let cAmount = times64 gross (divide64 (concession_value currentScenario) 100)
          in \<lparr>adjustedBase = aBase, adjustedAmenity = aAmenity, grossRent = gross,
               concessionAmount = cAmount, netEffective = minus64 gross cAmount\<rparr>)
       else if concession_type currentScenario = ''dollar'' then
         (let cAmount = concession_value currentScenario
          in \<lparr>adjustedBase = aBase, adjustedAmenity = aAmenity, grossRent = gross,
               concessionAmount = cAmount, netEffective = max 0 (minus64 gross cAmount)\<rparr>)
       else if concession_type currentScenario = ''free_months'' then
         \<lparr>adjustedBase = aBase, adjustedAmenity = aAmenity, grossRent = gross,
          concessionAmount = times64 gross (divide64 (concession_value currentScenario) 12),
          netEffective =
            times64 gross (divide64 (minus64 12 (concession_value currentScenario)) 12)\<rparr>
       else
         \<lparr>adjustedBase = aBase, adjustedAmenity = aAmenity, grossRent = gross,
          concessionAmount = 0, netEffective = gross\<rparr>)"

section \<open>Failure\<close>

text \<open>
  Modelled from the spec: the error kinds of its error-handling section. The files
  App.tsx, types.ts and api.ts declare no such type; it is needed only to say what a
  failing calculation would return.
\<close>

datatype error_kind = InvalidInput | DivisionUndefined | MismatchedInventory

text \<open>
  Each callback seen as a computation that may fail. Neither contains a \<open>throw\<close>, a test
  of \<open>unit_count\<close>, \<open>square_footage\<close>, \<open>base_rent\<close> or \<open>amenity_rent\<close>, or an operation
  that fails on a number (\<open>+\<close>, \<open>-\<close>, \<open>*\<close>, division by the literals \<open>100\<close> and \<open>12\<close>,
  \<open>Math.max\<close>), so the only outcome is the computed figures.
\<close>

definition exportToPDF_row :: "Floorplan \<Rightarrow> Scenario \<Rightarrow> error_kind + FloorplanFigures" where
  "exportToPDF_row fp currentScenario = Inr (exportToPDF_figures fp currentScenario)"

definition App_row :: "Floorplan \<Rightarrow> Scenario \<Rightarrow> error_kind + FloorplanFigures" where
  "App_row fp currentScenario = Inr (App_figures fp currentScenario)"

section \<open>Aggregation over a property\<close>

text \<open>
  Modelled from the spec: the unit-weighted revenue that \<open>calculateScenarioResults\<close> sums up.
  The aggregation runs in the backend behind \<open>/scenarios/{id}/calculate\<close>; its code is not
  among the source files (api.ts only calls the endpoint, types.ts only declares
  \<open>ScenarioResults\<close>). Following the spec's Scenario Aggregator, the per-floorplan
  calculation is invoked for every floorplan, a failure of it ends the aggregation with
  that failure, and each net effective rent is weighted by the floorplan's
  \<open>unit_count\<close>. The per-floorplan calculation is the one of the source.
\<close>

fun weighted_revenue :: "Floorplan list \<Rightarrow> Scenario \<Rightarrow> error_kind + real" where
  "weighted_revenue [] scenarioParams = Inr 0"
| "weighted_revenue (fp # floorplans) scenarioParams =
     (case App_row fp scenarioParams of
        Inl e \<Rightarrow> Inl e
      | Inr figures \<Rightarrow>
          (case weighted_revenue floorplans scenarioParams of
             Inl e \<Rightarrow> Inl e
           | Inr rest \<Rightarrow> Inr (netEffective figures * unit_count fp + rest)))"

text \<open>
  Modelled from the spec: \<open>calculateScenarioResults\<close> itself, missing from the source
  files for the same reason. \<open>total_annual_revenue\<close> is twelve times the weighted revenue,
  \<open>avg_rent_per_unit\<close> divides the weighted revenue by the total unit count,
  \<open>revenue_per_sqft\<close> by the total of \<open>square_footage * unit_count\<close>, and
  \<open>weighted_avg_rent\<close> repeats \<open>avg_rent_per_unit\<close>. A zero denominator follows the policy
  the spec fixes for \<open>DivisionUndefined\<close>: the metric is \<open>0\<close> and nothing is raised. The
  guard is written out, since division by zero is not an error in HOL.
\<close>

definition calculateScenarioResults ::
  "Floorplan list \<Rightarrow> Scenario \<Rightarrow> error_kind + ScenarioResults" where
  "calculateScenarioResults floorplans scenarioParams =
    (case weighted_revenue floorplans scenarioParams of
       Inl e \<Rightarrow> Inl e
     | Inr revenue \<Rightarrow>
         (let total_units = sum_list (map unit_count floorplans);
              total_sqft = sum_list (map (\<lambda>fp. square_footage fp * unit_count fp) floorplans);
              avg = (if total_units = 0 then 0 else revenue / total_units)
          in Inr \<lparr>total_annual_revenue = revenue * 12,
                  avg_rent_per_unit = avg,
                  revenue_per_sqft = (if total_sqft = 0 then 0 else revenue / total_sqft),
                  weighted_avg_rent = avg\<rparr>))"

section \<open>Sample inputs\<close>

text \<open>
  A floorplan and a scenario with the fields the calculation reads; identifiers and
  labels are fixed, they play no part in it.
\<close>

definition floorplan_of :: "real \<Rightarrow> real \<Rightarrow> real \<Rightarrow> real \<Rightarrow> Floorplan" where
  "floorplan_of units sqft base amenity =
    \<lparr>id_fp = ''fp-1'', property_id = ''prop-1'', name_fp = ''A1'', unit_type = ''1BR'',
     unit_count = units, square_footage = sqft, floor_level = None, view_type = None,
     base_rent = base, amenity_rent = amenity\<rparr>"

definition scenario_of :: "real \<Rightarrow> real \<Rightarrow> real \<Rightarrow> real \<Rightarrow> string \<Rightarrow> real \<Rightarrow> Scenario" where
  "scenario_of base_pct base_dollar amenity_pct amenity_dollar ctype cvalue =
    \<lparr>id_sc = ''sc-1'', analysis_id = ''an-1'', name_sc = ''Scenario'',
     base_rent_pct_adj = base_pct, base_rent_dollar_adj = base_dollar,
     amenity_rent_pct_adj = amenity_pct, amenity_rent_dollar_adj = amenity_dollar,
     concession_type = ctype, concession_value = cvalue,
     results = None, created_at = ''2024-01-01''\<rparr>"

text \<open>The floorplan of the spec's worked example: ten units of 750 sq ft at 1000 + 100.\<close>

definition fp_example :: Floorplan where
  "fp_example = floorplan_of 10 750 1000 100"

text \<open>A floorplan that is let at no rent, and one with a negative count, area and rents.\<close>

definition fp_rent_free :: Floorplan where
  "fp_rent_free = floorplan_of 4 500 0 0"

definition fp_negative :: Floorplan where
  "fp_negative = floorplan_of (- 1) 0 (- 1000) (- 100)"

text \<open>Two floorplans without units.\<close>

definition fp_no_units_a :: Floorplan where
  "fp_no_units_a = floorplan_of 0 750 1000 100"

definition fp_no_units_b :: Floorplan where
  "fp_no_units_b = floorplan_of 0 900 1500 0"

text \<open>Scenarios: the identity, and one per concession type.\<close>

definition sc_identity :: Scenario where
  "sc_identity = scenario_of 0 0 0 0 ''none'' 0"

definition sc_dollar_50 :: Scenario where
  "sc_dollar_50 = scenario_of (5 / 100) 0 0 0 ''dollar'' 50"

definition sc_dollar_5000 :: Scenario where
  "sc_dollar_5000 = scenario_of (5 / 100) 0 0 0 ''dollar'' 5000"

definition sc_percentage_150 :: Scenario where
  "sc_percentage_150 = scenario_of 0 0 0 0 ''percentage'' 150"

definition sc_free_months_0 :: Scenario where
  "sc_free_months_0 = scenario_of 0 0 0 0 ''free_months'' 0"

definition sc_free_months_1 :: Scenario where
  "sc_free_months_1 = scenario_of 0 0 0 0 ''free_months'' 1"

definition sc_free_months_12 :: Scenario where
  "sc_free_months_12 = scenario_of 0 0 0 0 ''free_months'' 12"

definition sc_unknown_type :: Scenario where
  "sc_unknown_type = scenario_of 0 0 0 0 ''half_off'' 50"

lemmas sample_defs =
  floorplan_of_def scenario_of_def fp_example_def fp_rent_free_def fp_negative_def
  fp_no_units_a_def fp_no_units_b_def sc_identity_def sc_dollar_50_def sc_dollar_5000_def
  sc_percentage_150_def sc_free_months_0_def sc_free_months_1_def
  sc_free_months_12_def sc_unknown_type_def

text \<open>
  Inputs for the rounded calculation. A rent of 2850.43 or 1959.26 and a concession of
  349.11 reach the code as the doubles nearest to these decimals.
\<close>

definition fp_550 :: Floorplan where
  "fp_550 = floorplan_of 10 750 550 0"

definition fp_1150 :: Floorplan where
  "fp_1150 = floorplan_of 10 750 1050 100"

definition fp_2850_43 :: Floorplan where
  "fp_2850_43 = floorplan_of 10 750 (binary64 (285043 / 100)) 0"

definition fp_1959_26 :: Floorplan where
  "fp_1959_26 = floorplan_of 10 750 (binary64 (195926 / 100)) 0"

definition sc_percentage_20 :: Scenario where
  "sc_percentage_20 = scenario_of 0 0 0 0 ''percentage'' 20"

definition sc_percentage_56 :: Scenario where
  "sc_percentage_56 = scenario_of 0 0 0 0 ''percentage'' 56"

definition sc_dollar_100 :: Scenario where
  "sc_dollar_100 = scenario_of 0 0 0 0 ''dollar'' 100"

definition sc_dollar_2000 :: Scenario where
  "sc_dollar_2000 = scenario_of 0 0 0 0 ''dollar'' 2000"

definition sc_dollar_349_11 :: Scenario where
  "sc_dollar_349_11 = scenario_of 0 0 0 0 ''dollar'' (binary64 (34911 / 100))"

text \<open>
  The smallest positive double, a subnormal number, as a rent, under a concession of
  101 percent.
\<close>

definition smallest_double :: real where
  "smallest_double = 2 powi (- 1074)"

definition fp_smallest :: Floorplan where
  "fp_smallest = floorplan_of 1 1 smallest_double 0"

definition sc_percentage_101 :: Scenario where
  "sc_percentage_101 = scenario_of 0 0 0 0 ''percentage'' 101"

lemmas sample64_defs =
  fp_550_def fp_1150_def fp_2850_43_def fp_1959_26_def sc_percentage_20_def
  sc_percentage_56_def sc_dollar_100_def sc_dollar_2000_def sc_dollar_349_11_def

text \<open>What it takes to evaluate the rounding and the rounded operations on numerals.\<close>

lemmas binary64_eval =
  binary64_def quantum_def binade_def binade_up.simps binade_down.simps
  round_half_even_def Let_def plus64_def minus64_def times64_def divide64_def is_binary64_def

section \<open>Auxiliary facts\<close>

lemma figures_agree: "exportToPDF_figures fp sc = App_figures fp sc"
  unfolding exportToPDF_figures_def App_figures_def by (rule refl)

lemma sum_list_all_zero:
  fixes f :: "'a \<Rightarrow> real"
  assumes "\<forall>x \<in> set xs. f x = 0"
  shows "sum_list (map f xs) = 0"
  using assms by (induction xs) simp_all

lemma weighted_revenue_total:
  "weighted_revenue floorplans sc
     = Inr (sum_list (map (\<lambda>fp. netEffective (App_figures fp sc) * unit_count fp) floorplans))"
  by (induction floorplans) (simp_all add: App_row_def)

subsection \<open>Rounding to the nearest integer\<close>

lemma rhe_of_int: "round_half_even (of_int n) = n"
  by (simp add: round_half_even_def)

lemma rhe_mono:
  assumes "y \<le> z"
  shows "round_half_even y \<le> round_half_even z"
proof -
  have fl: "\<lfloor>y\<rfloor> \<le> \<lfloor>z\<rfloor>" using assms by (rule floor_mono)
  show ?thesis
  proof (cases "\<lfloor>y\<rfloor> = \<lfloor>z\<rfloor>")
    case True
    with assms show ?thesis
      by (auto simp: round_half_even_def Let_def)
  next
    case False
    with fl have "\<lfloor>y\<rfloor> + 1 \<le> \<lfloor>z\<rfloor>" by simp
    moreover have "round_half_even y \<le> \<lfloor>y\<rfloor> + 1"
      by (simp add: round_half_even_def Let_def)
    moreover have "\<lfloor>z\<rfloor> \<le> round_half_even z"
      by (simp add: round_half_even_def Let_def)
    ultimately show ?thesis by linarith
  qed
qed

lemma floor_neg_nonint:
  fixes y :: real
  assumes "y \<noteq> of_int \<lfloor>y\<rfloor>"
  shows "\<lfloor>- y\<rfloor> = - \<lfloor>y\<rfloor> - 1"
  using assms by linarith

lemma rhe_minus: "round_half_even (- y) = - round_half_even y"
proof (cases "y = of_int \<lfloor>y\<rfloor>")
  case True
  then obtain n where "y = of_int n" ..
  then have "- y = of_int (- n)" by simp
  then show ?thesis
    using \<open>y = of_int n\<close> by (simp only: rhe_of_int)
next
  case False
  then have fm: "\<lfloor>- y\<rfloor> = - \<lfloor>y\<rfloor> - 1"
    by (rule floor_neg_nonint)
  have d: "- y - of_int \<lfloor>- y\<rfloor> = 1 - (y - of_int \<lfloor>y\<rfloor>)"
    by (simp add: fm)
  have nz: "y - of_int \<lfloor>y\<rfloor> \<noteq> 0" using False by simp
  show ?thesis
    unfolding round_half_even_def Let_def d
    using nz by (auto simp: fm)
qed

subsection \<open>Powers of two and binades\<close>

lemma two_powi_succ: "(2::real) powi (k + 1) = 2 * 2 powi k"
  by (simp add: power_int_add)

lemma two_powi_pred: "(2::real) powi k = 2 * 2 powi (k - 1)"
  using two_powi_succ [of "k - 1"] by simp

lemma binade_up_bounds:
  assumes "1 \<le> x"
  shows "2 powi binade_up x \<le> x \<and> x < 2 powi (binade_up x + 1)"
  using assms
proof (induction x rule: binade_up.induct)
  case (1 x)
  show ?case
  proof (cases "x < 2")
    case True
    then have "binade_up x = 0"
      by (subst binade_up.simps) simp
    with True "1.prems" show ?thesis by simp
  next
    case False
    then have "1 \<le> x / 2" by simp
    with "1.IH" False
    have ih: "2 powi binade_up (x / 2) \<le> x / 2 \<and> x / 2 < 2 powi (binade_up (x / 2) + 1)"
      by simp
    have up: "binade_up x = binade_up (x / 2) + 1"
      using False by (subst binade_up.simps) simp
    from ih show ?thesis
      unfolding up two_powi_succ [of "binade_up (x / 2) + 1"]
      unfolding two_powi_succ [of "binade_up (x / 2)"]
      by linarith
  qed
qed

lemma binade_down_bounds:
  assumes "0 < x" and "x < 1"
  shows "2 powi binade_down x \<le> x \<and> x < 2 powi (binade_down x + 1)"
  using assms
proof (induction x rule: binade_down.induct)
  case (1 x)
  have down: "binade_down x = binade_down (2 * x) - 1"
    using "1.prems" by (subst binade_down.simps) simp
  show ?case
  proof (cases "2 * x < 1")
    case True
    with "1.IH" "1.prems"
    have ih: "2 powi binade_down (2 * x) \<le> 2 * x \<and> 2 * x < 2 powi (binade_down (2 * x) + 1)"
      by simp
    have e: "binade_down (2 * x) - 1 + 1 = binade_down (2 * x)" by simp
    from ih show ?thesis
      unfolding down e
      unfolding two_powi_succ [of "binade_down (2 * x)"] two_powi_pred [of "binade_down (2 * x)"]
      by linarith
  next
    case False
    then have "binade_down (2 * x) = 0"
      by (subst binade_down.simps) simp
    with False "1.prems" show ?thesis unfolding down by simp
  qed
qed

lemma binade_bounds:
  assumes "0 < x"
  shows "2 powi binade x \<le> x \<and> x < 2 powi (binade x + 1)"
  using assms binade_up_bounds [of x] binade_down_bounds [of x]
  by (cases "1 \<le> x") (simp_all add: binade_def)

lemma two_powi_less_imp:
  fixes j k :: int
  assumes "(2::real) powi j < 2 powi k"
  shows "j < k"
proof (rule ccontr)
  assume "\<not> j < k"
  then have "k \<le> j" by simp
  then have "(2::real) powi k \<le> 2 powi j" by (rule power_int_increasing) simp
  with assms show False by simp
qed

lemma binade_unique:
  assumes "0 < x" and "2 powi k \<le> x" and "x < 2 powi (k + 1)"
  shows "binade x = k"
proof -
  from binade_bounds [OF assms(1)]
  have b: "2 powi binade x \<le> x" "x < 2 powi (binade x + 1)" by simp_all
  from b(1) assms(3) have "(2::real) powi binade x < 2 powi (k + 1)" by linarith
  then have "binade x < k + 1" by (rule two_powi_less_imp)
  moreover from assms(2) b(2) have "(2::real) powi k < 2 powi (binade x + 1)" by linarith
  then have "k < binade x + 1" by (rule two_powi_less_imp)
  ultimately show ?thesis by simp
qed

lemma binade_mono:
  assumes "0 < x" and "x \<le> y"
  shows "binade x \<le> binade y"
proof -
  have y: "0 < y" using assms by simp
  from binade_bounds [OF assms(1)] binade_bounds [OF y] assms(2)
  have "(2::real) powi binade x < 2 powi (binade y + 1)" by linarith
  then have "binade x < binade y + 1" by (rule two_powi_less_imp)
  then show ?thesis by simp
qed

lemma two_powi_pos: "0 < (2::real) powi k"
  by simp

lemma two_powi_mono: "j \<le> k \<Longrightarrow> (2::real) powi j \<le> 2 powi k"
  by (rule power_int_increasing) simp_all

lemma two_powi_sum: "(2::real) powi (j + k) = 2 powi j * 2 powi k"
  by (simp add: power_int_add)

lemma two_powi_nat: "0 \<le> k \<Longrightarrow> (2::real) powi k = of_int (2 ^ nat k)"
  by (simp add: power_int_def)

subsection \<open>Rounding to the nearest double\<close>

lemma quantum_minus: "quantum (- x) = quantum x"
  by (simp add: quantum_def)

lemma binary64_zero: "binary64 0 = 0"
  by (simp add: binary64_def)

lemma binary64_minus: "binary64 (- x) = - binary64 x"
  by (simp add: binary64_def quantum_minus rhe_minus)

lemma binary64_nonneg:
  assumes "0 \<le> x"
  shows "0 \<le> binary64 x"
proof -
  have "0 \<le> x / 2 powi quantum x" using assms by simp
  then have "round_half_even (of_int 0) \<le> round_half_even (x / 2 powi quantum x)"
    by (intro rhe_mono) simp
  then have "0 \<le> round_half_even (x / 2 powi quantum x)"
    by (simp only: rhe_of_int)
  then show ?thesis by (simp add: binary64_def)
qed

lemma binary64_nonpos:
  assumes "x \<le> 0"
  shows "binary64 x \<le> 0"
  using binary64_nonneg [of "- x"] assms by (simp add: binary64_minus)

lemma quantum_bounds:
  assumes "x \<noteq> 0"
  shows "- 1074 \<le> quantum x" and "\<bar>x\<bar> < 2 powi (quantum x + 53)"
proof -
  show "- 1074 \<le> quantum x" by (simp add: quantum_def)
  have "0 < \<bar>x\<bar>" using assms by simp
  from binade_bounds [OF this] have "\<bar>x\<bar> < 2 powi (binade \<bar>x\<bar> + 1)" by simp
  also have "\<dots> \<le> 2 powi (quantum x + 53)"
    by (rule two_powi_mono) (simp add: quantum_def)
  finally show "\<bar>x\<bar> < 2 powi (quantum x + 53)" .
qed

lemma binary64_range:
  obtains n e where "binary64 x = of_int n * 2 powi e" and "\<bar>n\<bar> \<le> 2 ^ 53" and "- 1074 \<le> e"
proof (cases "x = 0")
  case True
  have "binary64 x = of_int 0 * 2 powi 0" using True by (simp add: binary64_zero)
  moreover have "\<bar>0::int\<bar> \<le> 2 ^ 53" and "- 1074 \<le> (0::int)" by simp_all
  ultimately show ?thesis by (rule that)
next
  case False
  define q where "q = quantum x"
  define y where "y = x / 2 powi q"
  from quantum_bounds [OF False] have q: "- 1074 \<le> q" and x: "\<bar>x\<bar> < 2 powi (q + 53)"
    by (simp_all add: q_def)
  have "\<bar>y\<bar> = \<bar>x\<bar> / 2 powi q" by (simp add: y_def)
  also have "\<dots> < 2 powi (q + 53) / 2 powi q"
    using x by (simp add: divide_strict_right_mono)
  also have "\<dots> = 2 ^ 53" by (simp add: two_powi_sum mult.commute)
  finally have y: "\<bar>y\<bar> < 2 ^ 53" .
  then have "y \<le> of_int (2 ^ 53)" and "of_int (- (2 ^ 53)) \<le> y" by simp_all
  then have "round_half_even y \<le> round_half_even (of_int (2 ^ 53))"
    and "round_half_even (of_int (- (2 ^ 53))) \<le> round_half_even y"
    by (simp_all only: rhe_mono)
  then have "\<bar>round_half_even y\<bar> \<le> 2 ^ 53"
    by (simp only: rhe_of_int)
  moreover have "binary64 x = of_int (round_half_even y) * 2 powi q"
    using False by (simp add: binary64_def q_def y_def)
  ultimately show ?thesis using q by (intro that)
qed

lemma binary64_grid:
  assumes e: "- 1074 \<le> e" and n: "\<bar>n\<bar> \<le> 2 ^ 53"
  shows "binary64 (of_int n * 2 powi e) = of_int n * 2 powi e"
proof (cases "n = 0")
  case True
  then show ?thesis by (simp add: binary64_zero)
next
  case False
  define x :: real where "x = of_int n * 2 powi e"
  define j where "j = binade (of_int \<bar>n\<bar>)"
  define q where "q = quantum x"
  have xnz: "x \<noteq> 0" using False by (simp add: x_def)
  have absx: "\<bar>x\<bar> = of_int \<bar>n\<bar> * 2 powi e"
    by (simp add: x_def abs_mult)
  have npos: "(0::real) < of_int \<bar>n\<bar>" using False by simp
  from binade_bounds [OF npos]
  have jl: "2 powi j \<le> (of_int \<bar>n\<bar> :: real)" and ju: "(of_int \<bar>n\<bar> :: real) < 2 powi (j + 1)"
    by (simp_all add: j_def)
  have n': "(of_int \<bar>n\<bar> :: real) \<le> 2 powi 53"
  proof -
    have "(of_int \<bar>n\<bar> :: real) \<le> of_int (2 ^ 53)" using n by (simp only: of_int_le_iff)
    then show ?thesis by simp
  qed
  have "(2::real) powi j < 2 powi 54"
  proof -
    have "(2::real) powi 53 < 2 powi 54" by simp
    with jl n' show ?thesis by linarith
  qed
  then have j: "j \<le> 53" using two_powi_less_imp [of j 54] by simp
  have bx: "binade \<bar>x\<bar> = j + e"
  proof (rule binade_unique)
    show "0 < \<bar>x\<bar>" using xnz by simp
    show "2 powi (j + e) \<le> \<bar>x\<bar>"
      unfolding absx two_powi_sum using jl by (simp add: mult_right_mono)
    have "j + e + 1 = (j + 1) + e" by simp
    then have "(2::real) powi (j + e + 1) = 2 powi (j + 1) * 2 powi e"
      by (simp only: two_powi_sum)
    then show "\<bar>x\<bar> < 2 powi (j + e + 1)"
      unfolding absx using ju by (simp add: mult_strict_right_mono)
  qed
  have qdef: "q = max (j + e - 52) (- 1074)"
    by (simp add: q_def quantum_def bx)
  have "\<exists>m. x = of_int m * 2 powi q"
  proof (cases "j \<le> 52")
    case True
    then have qe: "q \<le> e" using e by (simp add: qdef)
    then have "(2::real) powi e = 2 powi (e - q) * 2 powi q"
      by (simp flip: two_powi_sum)
    also have "(2::real) powi (e - q) = of_int (2 ^ nat (e - q))"
      using qe by (intro two_powi_nat) simp
    finally have "x = of_int (n * 2 ^ nat (e - q)) * 2 powi q"
      by (simp add: x_def)
    then show ?thesis ..
  next
    case False
    with j have j53: "j = 53" by simp
    then have q: "q = e + 1" using e by (simp add: qdef)
    from jl n' have "(of_int \<bar>n\<bar> :: real) = of_int (2 ^ 53)" by (simp add: j53)
    then have "\<bar>n\<bar> = 2 ^ 53" by (simp only: of_int_eq_iff)
    then have "even \<bar>n\<bar>" by simp
    then have "even n" by simp
    then have "n = 2 * (n div 2)" by simp
    then have "(of_int n :: real) = 2 * of_int (n div 2)"
      by (metis of_int_mult of_int_numeral)
    then have "x = of_int (n div 2) * 2 powi q"
      by (simp add: x_def q two_powi_succ)
    then show ?thesis ..
  qed
  then obtain m where m: "x = of_int m * 2 powi q" ..
  then have "x / 2 powi q = of_int m" by simp
  then have "binary64 x = of_int m * 2 powi q"
    using xnz by (simp add: binary64_def q_def rhe_of_int)
  with m show ?thesis by (simp add: x_def)
qed

lemma binary64_idem: "binary64 (binary64 x) = binary64 x"
proof -
  obtain n e where "binary64 x = of_int n * 2 powi e" and "\<bar>n\<bar> \<le> 2 ^ 53" and "- 1074 \<le> e"
    by (rule binary64_range)
  then show ?thesis by (simp add: binary64_grid)
qed

lemma quantum_mono_pos:
  assumes "0 < x" and "x \<le> y"
  shows "quantum x \<le> quantum y"
proof -
  have "binade \<bar>x\<bar> \<le> binade \<bar>y\<bar>"
    using assms by (intro binade_mono) simp_all
  then show ?thesis by (simp add: quantum_def)
qed

lemma binary64_mono_pos:
  assumes x: "0 < x" and xy: "x \<le> y"
  shows "binary64 x \<le> binary64 y"
proof -
  have y: "0 < y" using assms by simp
  define qx where "qx = quantum x"
  define qy where "qy = quantum y"
  have rx: "binary64 x = of_int (round_half_even (x / 2 powi qx)) * 2 powi qx"
    using x by (simp add: binary64_def qx_def)
  have ry: "binary64 y = of_int (round_half_even (y / 2 powi qy)) * 2 powi qy"
    using y by (simp add: binary64_def qy_def)
  have le: "qx \<le> qy"
    unfolding qx_def qy_def using x xy by (rule quantum_mono_pos)
  show ?thesis
  proof (cases "qx = qy")
    case True
    have "x / 2 powi qy \<le> y / 2 powi qy"
      using xy by (simp add: divide_right_mono)
    then have "round_half_even (x / 2 powi qy) \<le> round_half_even (y / 2 powi qy)"
      by (rule rhe_mono)
    then have "(of_int (round_half_even (x / 2 powi qy)) :: real)
                 \<le> of_int (round_half_even (y / 2 powi qy))"
      by (simp only: of_int_le_iff)
    then show ?thesis
      unfolding rx ry True by (simp add: mult_right_mono)
  next
    case False
    with le have lt: "qx < qy" by simp
    define b where "b = binade \<bar>y\<bar>"
    have "- 1074 \<le> qx" using x quantum_bounds(1) [of x] by (simp add: qx_def)
    with lt have qyb: "qy = b - 52" 
      by (simp add: qy_def quantum_def b_def max_def split: if_splits)
    have ylow: "2 powi b \<le> y"
      using binade_bounds [of "\<bar>y\<bar>"] y by (simp add: b_def)
    \<comment> \<open>the larger number rounds to at least the start of its binade\<close>
    have p52: "(2::real) powi b = of_int (2 ^ 52) * 2 powi qy"
    proof -
      have "(2::real) powi b = 2 powi (52 + qy)" by (simp add: qyb)
      also have "\<dots> = 2 powi 52 * 2 powi qy" by (rule two_powi_sum)
      finally show ?thesis by simp
    qed
    then have "of_int (2 ^ 52) * 2 powi qy \<le> y"
      using ylow by simp
    then have "of_int (2 ^ 52) \<le> y / 2 powi qy"
      by (simp only: pos_le_divide_eq two_powi_pos)
    then have "round_half_even (of_int (2 ^ 52)) \<le> round_half_even (y / 2 powi qy)"
      by (rule rhe_mono)
    then have "(of_int (2 ^ 52) :: real) \<le> of_int (round_half_even (y / 2 powi qy))"
      by (simp only: rhe_of_int of_int_le_iff)
    then have "of_int (2 ^ 52) * 2 powi qy \<le> binary64 y"
      unfolding ry by (simp only: mult_right_mono two_powi_pos less_imp_le)
    then have upper: "2 powi b \<le> binary64 y"
      using p52 by simp
    \<comment> \<open>the smaller number rounds to at most that\<close>
    have xq: "x < 2 powi (qx + 53)"
      using quantum_bounds(2) [of x] x by (simp add: qx_def)
    have "qx + 53 \<le> b" using lt qyb by simp
    then have "(2::real) powi (qx + 53) \<le> 2 powi b" by (rule two_powi_mono)
    with xq have xb: "x \<le> 2 powi b" by simp
    have d: "0 \<le> b - qx" using lt qyb by simp
    have split: "(2::real) powi b = of_int (2 ^ nat (b - qx)) * 2 powi qx"
    proof -
      have "(2::real) powi b = 2 powi ((b - qx) + qx)" by simp
      also have "\<dots> = 2 powi (b - qx) * 2 powi qx" by (rule two_powi_sum)
      finally show ?thesis using two_powi_nat [OF d] by simp
    qed
    with xb have "x \<le> of_int (2 ^ nat (b - qx)) * 2 powi qx" by simp
    then have "x / 2 powi qx \<le> of_int (2 ^ nat (b - qx))"
      by (simp only: pos_divide_le_eq two_powi_pos)
    then have "round_half_even (x / 2 powi qx) \<le> round_half_even (of_int (2 ^ nat (b - qx)))"
      by (rule rhe_mono)
    then have "(of_int (round_half_even (x / 2 powi qx)) :: real) \<le> of_int (2 ^ nat (b - qx))"
      by (simp only: rhe_of_int of_int_le_iff)
    then have "binary64 x \<le> of_int (2 ^ nat (b - qx)) * 2 powi qx"
      unfolding rx by (simp only: mult_right_mono two_powi_pos less_imp_le)
    then have "binary64 x \<le> 2 powi b"
      using split by simp
    with upper show ?thesis by simp
  qed
qed

lemma binary64_mono:
  assumes "x \<le> y"
  shows "binary64 x \<le> binary64 y"
proof -
  consider "0 < x" | "x \<le> 0" "0 \<le> y" | "y < 0" by linarith
  then show ?thesis
  proof cases
    case 1
    then show ?thesis using assms by (rule binary64_mono_pos)
  next
    case 2
    then have "binary64 x \<le> 0" and "0 \<le> binary64 y"
      by (simp_all add: binary64_nonpos binary64_nonneg)
    then show ?thesis by simp
  next
    case 3
    then have "0 < - y" and "- y \<le> - x" using assms by simp_all
    then have "binary64 (- y) \<le> binary64 (- x)" by (rule binary64_mono_pos)
    then show ?thesis by (simp add: binary64_minus)
  qed
qed

subsection \<open>The rounded calculation\<close>

lemma figures64_agree: "exportToPDF_figures64 fp sc = App_figures64 fp sc"
  unfolding exportToPDF_figures64_def App_figures64_def by (rule refl)

lemma is_binary64_round: "is_binary64 (binary64 x)"
  by (simp add: is_binary64_def binary64_idem)

lemma binary64_one: "binary64 1 = 1"
  using binary64_grid [of 0 1] by simp

lemma gross64_is_binary64: "is_binary64 (grossRent (App_figures64 fp sc))"
  by (simp add: App_figures64_def Let_def plus64_def is_binary64_round)

lemma App64_percentage:
  assumes "concession_type sc = ''percentage''"
  shows "concessionAmount (App_figures64 fp sc)
           = times64 (grossRent (App_figures64 fp sc)) (divide64 (concession_value sc) 100)"
    and "netEffective (App_figures64 fp sc)
           = minus64 (grossRent (App_figures64 fp sc)) (concessionAmount (App_figures64 fp sc))"
  using assms by (simp_all add: App_figures64_def Let_def)

lemma over_100_percent_not_positive:
  assumes g: "is_binary64 g" and g0: "0 \<le> g" and x: "100 < x"
  shows "minus64 g (times64 g (divide64 x 100)) \<le> 0"
proof -
  have "1 \<le> x / 100" using x by simp
  then have "binary64 1 \<le> binary64 (x / 100)" by (rule binary64_mono)
  then have q: "1 \<le> divide64 x 100" by (simp add: binary64_one divide64_def)
  have "g * 1 \<le> g * divide64 x 100" using q g0 by (rule mult_left_mono)
  then have "binary64 g \<le> binary64 (g * divide64 x 100)"
    by (intro binary64_mono) simp
  then have "g \<le> times64 g (divide64 x 100)"
    using g by (simp add: is_binary64_def times64_def)
  then have "g - times64 g (divide64 x 100) \<le> 0" by simp
  then show ?thesis unfolding minus64_def by (rule binary64_nonpos)
qed

lemma binade_100: "binade 100 = 6"
  by (rule binade_unique) simp_all

lemma quantum_100: "quantum 100 = - 46"
  by (simp add: quantum_def binade_100)

lemma binary64_form:
  assumes "x \<noteq> 0"
  shows "binary64 x = of_int (round_half_even (x / 2 powi quantum x)) * 2 powi quantum x"
  using assms by (simp add: binary64_def)

lemma above_100:
  assumes x: "is_binary64 x" and gt: "100 < x"
  shows "100 + 2 powi (- 46) \<le> x"
proof -
  define q where "q = quantum x"
  define m where "m = round_half_even (x / 2 powi q)"
  have "quantum 100 \<le> quantum x" using gt by (intro quantum_mono_pos) simp_all
  then have d: "0 \<le> q + 46" by (simp add: quantum_100 q_def)
  have "x \<noteq> 0" using gt by simp
  from binary64_form [OF this] x have xm: "x = of_int m * 2 powi q"
    by (simp add: is_binary64_def q_def m_def)
  have "(2::real) powi q = 2 powi ((q + 46) + (- 46))" by simp
  also have "\<dots> = 2 powi (q + 46) * 2 powi (- 46)" by (rule two_powi_sum)
  also have "\<dots> = of_int (2 ^ nat (q + 46)) * 2 powi (- 46)"
    using two_powi_nat [OF d] by simp
  finally have "x = of_int (m * 2 ^ nat (q + 46)) * 2 powi (- 46)"
    using xm by simp
  then obtain k :: int where k: "x = of_int k * 2 powi (- 46)" ..
  have h: "(100::real) = of_int (100 * 2 ^ 46) * 2 powi (- 46)"
    by (simp add: power_int_minus)
  have "of_int (100 * 2 ^ 46) * 2 powi (- 46) < x"
    using gt h by linarith
  then have "of_int (100 * 2 ^ 46) * 2 powi (- 46) < (of_int k :: real) * 2 powi (- 46)"
    unfolding k .
  then have "(of_int (100 * 2 ^ 46) :: real) < of_int k"
    by (simp only: mult_less_cancel_right_pos two_powi_pos)
  then have "100 * 2 ^ 46 < k" by (simp only: of_int_less_iff)
  then have "100 * 2 ^ 46 + 1 \<le> k" by simp
  then have "(of_int (100 * 2 ^ 46 + 1) :: real) \<le> of_int k" by (simp only: of_int_le_iff)
  then have "of_int (100 * 2 ^ 46 + 1) * 2 powi (- 46) \<le> (of_int k :: real) * 2 powi (- 46)"
    by (simp only: mult_le_cancel_right_pos two_powi_pos)
  moreover have "of_int (100 * 2 ^ 46 + 1) * 2 powi (- 46) = (100::real) + 2 powi (- 46)"
    by (simp add: power_int_minus)
  ultimately show ?thesis unfolding k by linarith
qed

lemma quotient_above_100:
  assumes "is_binary64 x" and "100 < x"
  shows "1 + 2 powi (- 52) \<le> divide64 x 100"
proof -
  have "(100 + 2 powi (- 46)) / 100 \<le> x / 100"
    using above_100 [OF assms] by (simp add: divide_right_mono)
  then have "binary64 ((100 + 2 powi (- 46)) / 100) \<le> binary64 (x / 100)"
    by (rule binary64_mono)
  moreover have "binary64 ((100 + 2 powi (- 46)) / 100) = 1 + 2 powi (- 52)"
  proof -
    have "(100 + 2 powi (- 46)) / 100 = (7036874417766401 / 7036874417766400 :: real)"
      by (simp add: power_int_minus)
    moreover have "binary64 (7036874417766401 / 7036874417766400)
                     = 4503599627370497 / 4503599627370496"
      by (simp add: binary64_eval)
    moreover have "1 + 2 powi (- 52) = (4503599627370497 / 4503599627370496 :: real)"
      by (simp add: power_int_minus)
    ultimately show ?thesis by simp
  qed
  ultimately show ?thesis by (simp add: divide64_def)
qed

lemma normal_step:
  assumes g: "is_binary64 g" and low: "2 powi (- 1022) \<le> g"
  obtains u where "0 < u" and "u \<le> g * 2 powi (- 52)"
    and "is_binary64 (g + u)" and "is_binary64 (- u)"
proof -
  define b where "b = binade g"
  define q where "q = quantum g"
  define m where "m = round_half_even (g / 2 powi q)"
  have gpos: "0 < g" using low two_powi_pos [of "- 1022"] by linarith
  have "binade (2 powi (- 1022)) = - 1022"
    by (rule binade_unique) (simp_all add: two_powi_succ)
  moreover have "binade (2 powi (- 1022)) \<le> binade g"
    using low by (intro binade_mono) simp_all
  ultimately have b: "- 1022 \<le> b" by (simp add: b_def)
  then have q: "q = b - 52" using gpos by (simp add: q_def quantum_def b_def)
  then have q1074: "- 1074 \<le> q" using b by simp
  from binade_bounds [OF gpos]
  have gl: "2 powi b \<le> g" and gu: "g < 2 powi (b + 1)" by (simp_all add: b_def)
  have "g \<noteq> 0" using gpos by simp
  from binary64_form [OF this] g have gm: "g = of_int m * 2 powi q"
    by (simp add: is_binary64_def q_def m_def)
  have pb: "(2::real) powi b = 2 powi 52 * 2 powi q"
  proof -
    have "b = 52 + q" by (simp add: q)
    then have "(2::real) powi b = 2 powi (52 + q)" by (rule arg_cong)
    then show ?thesis by (simp only: two_powi_sum)
  qed
  have pb1: "(2::real) powi (b + 1) = 2 powi 53 * 2 powi q"
  proof -
    have "b + 1 = 53 + q" by (simp add: q)
    then have "(2::real) powi (b + 1) = 2 powi (53 + q)" by (rule arg_cong)
    then show ?thesis by (simp only: two_powi_sum)
  qed
  have "of_int m * 2 powi q < (2 powi 53 :: real) * 2 powi q"
    using gu gm pb1 by simp
  then have "(of_int m :: real) < 2 powi 53"
    by (simp only: mult_less_cancel_right_pos two_powi_pos)
  then have "(of_int m :: real) < of_int (2 ^ 53)" by simp
  then have mu: "m < 2 ^ 53" by (simp only: of_int_less_iff)
  have "0 < of_int m * (2 powi q :: real)" using gpos gm by simp
  then have "(0::real) < of_int m"
    using two_powi_pos [of q] by (simp add: zero_less_mult_iff not_less_iff_gr_or_eq)
  then have ml: "0 < m" by simp
  define u :: real where "u = 2 powi q"
  have "0 < u" by (simp add: u_def)
  moreover have "u \<le> g * 2 powi (- 52)"
  proof -
    have "u * 2 powi 52 \<le> g" using gl pb by (simp add: u_def mult.commute)
    then have "u * 2 powi 52 * 2 powi (- 52) \<le> g * 2 powi (- 52)"
      by (simp only: mult_le_cancel_right_pos two_powi_pos)
    moreover have "(2::real) powi 52 * 2 powi (- 52) = 1"
      by (simp flip: two_powi_sum)
    ultimately show ?thesis by (simp add: mult.assoc)
  qed
  moreover have "is_binary64 (g + u)"
  proof -
    have "g + u = of_int (m + 1) * 2 powi q"
      by (simp add: gm u_def algebra_simps)
    moreover have "\<bar>m + 1\<bar> \<le> 2 ^ 53" using mu ml by simp
    ultimately show ?thesis
      using binary64_grid [OF q1074, of "m + 1"] by (simp add: is_binary64_def)
  qed
  moreover have "is_binary64 (- u)"
    using binary64_grid [OF q1074, of "- 1"] by (simp add: is_binary64_def u_def)
  ultimately show ?thesis by (rule that)
qed

lemma over_100_percent_negative64:
  assumes g: "is_binary64 g" and low: "2 powi (- 1022) \<le> g"
    and x: "is_binary64 x" and gt: "100 < x"
  shows "minus64 g (times64 g (divide64 x 100)) < 0"
proof -
  obtain u where u: "0 < u" "u \<le> g * 2 powi (- 52)" "is_binary64 (g + u)" "is_binary64 (- u)"
    using g low by (rule normal_step)
  have gpos: "0 \<le> g" using low two_powi_pos [of "- 1022"] by linarith
  have "g * (1 + 2 powi (- 52)) \<le> g * divide64 x 100"
    using quotient_above_100 [OF x gt] gpos by (rule mult_left_mono)
  then have "g + u \<le> g * divide64 x 100"
    using u(2) by (simp add: algebra_simps)
  then have "binary64 (g + u) \<le> binary64 (g * divide64 x 100)"
    by (rule binary64_mono)
  then have "g + u \<le> times64 g (divide64 x 100)"
    using u(3) by (simp add: is_binary64_def times64_def)
  then have "g - times64 g (divide64 x 100) \<le> - u" by simp
  then have "binary64 (g - times64 g (divide64 x 100)) \<le> binary64 (- u)"
    by (rule binary64_mono)
  then have "minus64 g (times64 g (divide64 x 100)) \<le> - u"
    using u(4) by (simp add: is_binary64_def minus64_def)
  with u(1) show ?thesis by simp
qed



lemma App64_percentage_props:
  assumes "concession_type sc = ''percentage''"
  shows "(let r = App_figures64 fp sc; x = concession_value sc in
            concessionAmount r = times64 (grossRent r) (divide64 x 100)
          \<and> netEffective r = minus64 (grossRent r) (concessionAmount r)
          \<and> (100 < x \<and> 0 \<le> grossRent r \<longrightarrow> netEffective r \<le> 0)
          \<and> (100 < x \<and> is_binary64 x \<and> 2 powi (- 1022) \<le> grossRent r
               \<longrightarrow> netEffective r < 0))"
proof -
  note f = App64_percentage [OF assms, of fp]
  note g = gross64_is_binary64 [of fp sc]
  have "100 < concession_value sc \<and> 0 \<le> grossRent (App_figures64 fp sc)
          \<longrightarrow> netEffective (App_figures64 fp sc) \<le> 0"
    unfolding f(2) unfolding f(1) using g by (simp add: over_100_percent_not_positive)
  moreover
  have "100 < concession_value sc \<and> is_binary64 (concession_value sc)
          \<and> 2 powi (- 1022) \<le> grossRent (App_figures64 fp sc)
          \<longrightarrow> netEffective (App_figures64 fp sc) < 0"
    unfolding f(2) unfolding f(1) using g by (simp add: over_100_percent_negative64)
  ultimately show ?thesis
    unfolding Let_def using f by blast
qed


lemma tiny_le_one: "(2::real) powi (- 1022) \<le> 1"
  using two_powi_mono [of "- 1022" 0] by simp

lemma small_constants64:
  "plus64 1 0 = 1" "divide64 0 12 = 0" "minus64 12 0 = 12" "divide64 12 12 = 1"
  "minus64 12 12 = 0"
  by (simp_all add: binary64_eval)

lemma times64_one: "is_binary64 x \<Longrightarrow> times64 x 1 = x"
  by (simp add: times64_def is_binary64_def)

lemma times64_zero: "times64 x 0 = 0"
  by (simp add: times64_def binary64_zero)

lemma plus64_zero: "is_binary64 x \<Longrightarrow> plus64 x 0 = x"
  by (simp add: plus64_def is_binary64_def)

lemma smallest_double_pos: "0 < smallest_double"
  unfolding smallest_double_def by (rule two_powi_pos)

lemma smallest_double_scaled:
  assumes d: "1 \<le> d" "d < 3 / 2"
  shows "binary64 (smallest_double * d) = smallest_double"
proof -
  define x where "x = smallest_double * d"
  have u: "0 < smallest_double" by (rule smallest_double_pos)
  have xpos: "0 < x" using u d by (simp add: x_def)
  have lo: "2 powi (- 1074) \<le> x"
  proof -
    have "smallest_double * 1 \<le> smallest_double * d"
      using d(1) u by (intro mult_left_mono) simp_all
    then show ?thesis unfolding x_def smallest_double_def by (simp only: mult_1_right)
  qed
  have hi: "x < 2 powi (- 1074 + 1)"
  proof -
    have "smallest_double * d < smallest_double * 2"
      using d(2) u by (intro mult_strict_left_mono) simp_all
    then show ?thesis
      unfolding x_def smallest_double_def two_powi_succ by (simp only: mult.commute)
  qed
  have "binade x = - 1074" using xpos lo hi by (rule binade_unique)
  then have "binade \<bar>x\<bar> = - 1074" using xpos by simp
  then have q: "quantum x = - 1074" by (simp add: quantum_def)
  have "smallest_double * d / smallest_double = d"
    using u by simp
  then have xd: "x / 2 powi (- 1074) = d"
    unfolding x_def smallest_double_def .
  have r: "round_half_even d = 1"
  proof -
    have "\<lfloor>d\<rfloor> = 1" using d by linarith
    then show ?thesis using d by (simp add: round_half_even_def)
  qed
  have "x \<noteq> 0" using xpos by simp
  then have "binary64 x = of_int (round_half_even (x / 2 powi quantum x)) * 2 powi quantum x"
    by (rule binary64_form)
  then have "binary64 x = of_int 1 * 2 powi (- 1074)"
    unfolding q xd r .
  then show ?thesis
    unfolding x_def smallest_double_def by (simp only: of_int_1 mult_1)
qed

lemma smallest_is_binary64: "is_binary64 smallest_double"
  using smallest_double_scaled [of 1] by (simp add: is_binary64_def)

subsection \<open>The rounded calculation at the sample inputs\<close>

lemma figures64_smallest:
  "App_figures64 fp_smallest sc_percentage_101 =
     \<lparr>adjustedBase = smallest_double, adjustedAmenity = 0, grossRent = smallest_double,
      concessionAmount = smallest_double, netEffective = 0\<rparr>"
proof -
  have d: "divide64 101 100 = 4548635623644201 / 4503599627370496"
    by (simp add: binary64_eval)
  have c: "times64 smallest_double (4548635623644201 / 4503599627370496) = smallest_double"
    unfolding times64_def by (rule smallest_double_scaled) simp_all
  have b: "times64 smallest_double 1 = smallest_double"
    using smallest_is_binary64 by (rule times64_one)
  have p: "plus64 smallest_double 0 = smallest_double"
    using smallest_is_binary64 by (rule plus64_zero)
  have z: "plus64 0 0 = 0" "times64 0 1 = 0" "minus64 smallest_double smallest_double = 0"
    by (simp_all add: plus64_def minus64_def times64_def binary64_zero)
  show ?thesis
    by (simp add: App_figures64_def Let_def fp_smallest_def sc_percentage_101_def
        floorplan_of_def scenario_of_def small_constants64 times64_zero d c b p z)
qed

lemma figures64_rent_free:
  "App_figures64 fp_rent_free sc_percentage_150 =
     \<lparr>adjustedBase = 0, adjustedAmenity = 0, grossRent = 0,
      concessionAmount = 0, netEffective = 0\<rparr>"
  by (simp add: App_figures64_def binary64_eval sample_defs)

lemma figures64_550:
  "App_figures64 fp_550 sc_percentage_56 =
     \<lparr>adjustedBase = 550, adjustedAmenity = 0, grossRent = 550,
      concessionAmount = 5418393301680129 / 17592186044416,
      netEffective = 4257309022748671 / 17592186044416\<rparr>"
  by (simp add: App_figures64_def binary64_eval sample_defs sample64_defs)

lemma figures64_1100:
  "App_figures64 fp_example sc_percentage_150 =
     \<lparr>adjustedBase = 1000, adjustedAmenity = 100, grossRent = 1100,
      concessionAmount = 1650, netEffective = - 550\<rparr>"
  "App_figures64 fp_example sc_identity =
     \<lparr>adjustedBase = 1000, adjustedAmenity = 100, grossRent = 1100,
      concessionAmount = 0, netEffective = 1100\<rparr>"
  "App_figures64 fp_example sc_dollar_100 =
     \<lparr>adjustedBase = 1000, adjustedAmenity = 100, grossRent = 1100,
      concessionAmount = 100, netEffective = 1000\<rparr>"
  "App_figures64 fp_example sc_dollar_2000 =
     \<lparr>adjustedBase = 1000, adjustedAmenity = 100, grossRent = 1100,
      concessionAmount = 2000, netEffective = 0\<rparr>"
  by (simp_all add: App_figures64_def binary64_eval sample_defs sample64_defs max_def)




lemma sums64:
  "plus64 (2318137015227733 / 2199023255552) (6743671317026133 / 70368744177664)
     = 5057753487769599 / 4398046511104"
  "plus64 (3540757294927053 / 2199023255552) (3070804034983035 / 8796093022208)
     = 1077114575918203 / 549755813888"
  "plus64 (2507264743329235 / 1099511627776) (2507264743329235 / 4398046511104)
     = 391760116145193 / 137438953472"
  "times64 550 (minus64 1 (divide64 56 100)) = 8514618045497343 / 35184372088832"
  "plus64 1100 0 = 1100" "plus64 1000 100 = 1100" "plus64 0 2000 = 2000"
  by (simp_all add: binary64_eval)

lemma doubles64: "is_binary64 150" "is_binary64 100" "is_binary64 2000"
  by (simp_all add: binary64_eval)

section \<open>Properties of the per-floorplan calculation\<close>

text \<open>
  C1. For every floorplan and every scenario, both passes compute
  adjustedBase = base_rent * (1 + base_rent_pct_adj) + base_rent_dollar_adj,
  adjustedAmenity = amenity_rent * (1 + amenity_rent_pct_adj) + amenity_rent_dollar_adj and
  grossRent = adjustedBase + adjustedAmenity: the dollar adjustment is added on top of
  the percentage-adjusted amount, whatever the concession type.
\<close>

theorem adjusted_rent_formulas:
  "adjustedBase (App_figures fp sc)
     = base_rent fp * (1 + base_rent_pct_adj sc) + base_rent_dollar_adj sc
   \<and> adjustedAmenity (App_figures fp sc)
     = amenity_rent fp * (1 + amenity_rent_pct_adj sc) + amenity_rent_dollar_adj sc
   \<and> grossRent (App_figures fp sc)
     = adjustedBase (App_figures fp sc) + adjustedAmenity (App_figures fp sc)
   \<and> adjustedBase (exportToPDF_figures fp sc)
     = base_rent fp * (1 + base_rent_pct_adj sc) + base_rent_dollar_adj sc
   \<and> adjustedAmenity (exportToPDF_figures fp sc)
     = amenity_rent fp * (1 + amenity_rent_pct_adj sc) + amenity_rent_dollar_adj sc
   \<and> grossRent (exportToPDF_figures fp sc)
     = adjustedBase (exportToPDF_figures fp sc) + adjustedAmenity (exportToPDF_figures fp sc)"
  by (simp add: App_figures_def exportToPDF_figures_def Let_def)

text \<open>
  C2. For every floorplan and every scenario with concession_type = dollar, both passes
  give concessionAmount = concession_value and
  netEffective = max(0, grossRent - concession_value); netEffective is therefore never
  below 0, however large concession_value is.
\<close>

theorem dollar_concession_floor:
  assumes "concession_type sc = ''dollar''"
  shows "(let r = App_figures fp sc in
            concessionAmount r = concession_value sc
          \<and> netEffective r = max 0 (grossRent r - concession_value sc)
          \<and> 0 \<le> netEffective r)
       \<and> (let r = exportToPDF_figures fp sc in
            concessionAmount r = concession_value sc
          \<and> netEffective r = max 0 (grossRent r - concession_value sc)
          \<and> 0 \<le> netEffective r)"
  using assms by (simp add: App_figures_def exportToPDF_figures_def Let_def)

text \<open>
  The spec's worked example (a 50 dollar concession on a gross rent of 1150 leaves 1100)
  and a concession of 5000 on the same rent, which is cut off at 0.
\<close>

theorem dollar_concession_floor_witness:
  "concession_type sc_dollar_50 = ''dollar''
   \<and> concessionAmount (App_figures fp_example sc_dollar_50) = 50
   \<and> grossRent (App_figures fp_example sc_dollar_50) = 1150
   \<and> netEffective (App_figures fp_example sc_dollar_50) = 1100
   \<and> netEffective (exportToPDF_figures fp_example sc_dollar_50) = 1100
   \<and> concession_type sc_dollar_5000 = ''dollar''
   \<and> concessionAmount (App_figures fp_example sc_dollar_5000) = 5000
   \<and> netEffective (App_figures fp_example sc_dollar_5000) = 0
   \<and> netEffective (exportToPDF_figures fp_example sc_dollar_5000) = 0"
proof -
  have small: "concession_type sc_dollar_50 = ''dollar''"
    by (simp add: sample_defs)
  have large: "concession_type sc_dollar_5000 = ''dollar''"
    by (simp add: sample_defs)
  have gross: "grossRent (App_figures fp_example sc_dollar_50) = 1150"
              "grossRent (App_figures fp_example sc_dollar_5000) = 1150"
              "grossRent (exportToPDF_figures fp_example sc_dollar_50) = 1150"
              "grossRent (exportToPDF_figures fp_example sc_dollar_5000) = 1150"
    by (simp_all add: App_figures_def exportToPDF_figures_def sample_defs)
  have cv: "concession_value sc_dollar_50 = 50" "concession_value sc_dollar_5000 = 5000"
    by (simp_all add: sample_defs)
  show ?thesis
    using small large
      dollar_concession_floor [OF small, of fp_example]
      dollar_concession_floor [OF large, of fp_example]
    by (simp add: Let_def gross cv)
qed

text \<open>
  C3, as the claim states it, fails in the code's arithmetic. A rent-free floorplan under
  a 150 percent concession has a gross rent of 0, which is non-negative, and a net
  effective rent of 0, which is not negative. The same happens at the smallest positive
  gross rent under a 101 percent concession: 101 percent of it rounds to the gross rent
  itself, and the difference is 0. And the net effective rent is not
  exactly grossRent * (1 - x / 100): at a gross rent of 550 and x = 56 the code computes
  550 - 550 * (56 / 100) = 241.99999999999994 (4257309022748671 / 2^44), whereas
  550 * (1 - 56 / 100) is 241.99999999999997 (8514618045497343 / 2^45) in the code's
  arithmetic and 242 in exact arithmetic.
\<close>

theorem percentage_claim_fails:
  "concession_type sc_percentage_150 = ''percentage''
   \<and> 100 < concession_value sc_percentage_150
   \<and> grossRent (App_figures64 fp_rent_free sc_percentage_150) = 0
   \<and> netEffective (App_figures64 fp_rent_free sc_percentage_150) = 0
   \<and> \<not> netEffective (App_figures64 fp_rent_free sc_percentage_150) < 0
   \<and> \<not> netEffective (exportToPDF_figures64 fp_rent_free sc_percentage_150) < 0
   \<and> concession_type sc_percentage_101 = ''percentage''
   \<and> concession_value sc_percentage_101 = 101
   \<and> is_binary64 (concession_value sc_percentage_101)
   \<and> grossRent (App_figures64 fp_smallest sc_percentage_101) = smallest_double
   \<and> 0 < grossRent (App_figures64 fp_smallest sc_percentage_101)
   \<and> netEffective (App_figures64 fp_smallest sc_percentage_101) = 0
   \<and> \<not> netEffective (App_figures64 fp_smallest sc_percentage_101) < 0
   \<and> \<not> netEffective (exportToPDF_figures64 fp_smallest sc_percentage_101) < 0
   \<and> concession_type sc_percentage_56 = ''percentage''
   \<and> concession_value sc_percentage_56 = 56
   \<and> grossRent (App_figures64 fp_550 sc_percentage_56) = 550
   \<and> concessionAmount (App_figures64 fp_550 sc_percentage_56)
       = 5418393301680129 / 17592186044416
   \<and> netEffective (App_figures64 fp_550 sc_percentage_56)
       = 4257309022748671 / 17592186044416
   \<and> times64 550 (minus64 1 (divide64 56 100)) = 8514618045497343 / 35184372088832
   \<and> netEffective (App_figures64 fp_550 sc_percentage_56)
       \<noteq> times64 550 (minus64 1 (divide64 56 100))
   \<and> netEffective (App_figures64 fp_550 sc_percentage_56) \<noteq> 550 * (1 - 56 / 100)
   \<and> netEffective (exportToPDF_figures64 fp_550 sc_percentage_56)
       \<noteq> times64 550 (minus64 1 (divide64 56 100))
   \<and> netEffective (exportToPDF_figures64 fp_550 sc_percentage_56) \<noteq> 550 * (1 - 56 / 100)"
proof -
  have "concession_type sc_percentage_150 = ''percentage''"
    and "concession_value sc_percentage_150 = 150"
    and "concession_type sc_percentage_56 = ''percentage''"
    and "concession_value sc_percentage_56 = 56"
    and "concession_type sc_percentage_101 = ''percentage''"
    and "concession_value sc_percentage_101 = 101"
    by (simp_all add: sample_defs sample64_defs sc_percentage_101_def)
  moreover have "is_binary64 101"
    by (simp add: binary64_eval)
  ultimately show ?thesis
    by (simp add: figures64_agree figures64_rent_free figures64_550 figures64_smallest
        smallest_double_pos sums64)
qed

text \<open>
  C3 (amended). For every floorplan and every scenario with concession_type = percentage
  and concession value x, both passes give concessionAmount = grossRent * (x / 100) and
  netEffective = grossRent - concessionAmount, each product, quotient and difference
  rounded as the code's double-precision arithmetic rounds it (no exact equality with
  grossRent * (1 - x / 100) is stated). No floor is applied: for x > 100 applied to a
  non-negative gross rent the net effective rent is never positive, and it is negative
  whenever x is a double and the gross rent is at least 2^(-1022), the smallest positive
  normal double.
\<close>

theorem percentage_concession64:
  assumes "concession_type sc = ''percentage''"
  shows "(let r = App_figures64 fp sc; x = concession_value sc in
            concessionAmount r = times64 (grossRent r) (divide64 x 100)
          \<and> netEffective r = minus64 (grossRent r) (concessionAmount r)
          \<and> (100 < x \<and> 0 \<le> grossRent r \<longrightarrow> netEffective r \<le> 0)
          \<and> (100 < x \<and> is_binary64 x \<and> 2 powi (- 1022) \<le> grossRent r
               \<longrightarrow> netEffective r < 0))
       \<and> (let r = exportToPDF_figures64 fp sc; x = concession_value sc in
            concessionAmount r = times64 (grossRent r) (divide64 x 100)
          \<and> netEffective r = minus64 (grossRent r) (concessionAmount r)
          \<and> (100 < x \<and> 0 \<le> grossRent r \<longrightarrow> netEffective r \<le> 0)
          \<and> (100 < x \<and> is_binary64 x \<and> 2 powi (- 1022) \<le> grossRent r
               \<longrightarrow> netEffective r < 0))"
  unfolding figures64_agree using App64_percentage_props [OF assms, of fp] by simp

text \<open>
  A 150 percent concession on the example floorplan: 1100 * (150 / 100) = 1650 and
  1100 - 1650 = -550, all of them exact in doubles.
\<close>

theorem percentage_concession64_witness:
  "concession_type sc_percentage_150 = ''percentage''
   \<and> 100 < concession_value sc_percentage_150
   \<and> is_binary64 (concession_value sc_percentage_150)
   \<and> grossRent (App_figures64 fp_example sc_percentage_150) = 1100
   \<and> 2 powi (- 1022) \<le> grossRent (App_figures64 fp_example sc_percentage_150)
   \<and> concessionAmount (App_figures64 fp_example sc_percentage_150) = 1650
   \<and> netEffective (App_figures64 fp_example sc_percentage_150) = - 550
   \<and> netEffective (App_figures64 fp_example sc_percentage_150) < 0
   \<and> netEffective (exportToPDF_figures64 fp_example sc_percentage_150) < 0"
proof -
  have t: "concession_type sc_percentage_150 = ''percentage''"
    by (simp add: sample_defs)
  have x: "concession_value sc_percentage_150 = 150"
    by (simp add: sample_defs)
  have gross: "grossRent (App_figures64 fp_example sc_percentage_150) = 1100"
              "grossRent (exportToPDF_figures64 fp_example sc_percentage_150) = 1100"
    by (simp_all add: figures64_agree figures64_1100)
  have low: "(2::real) powi (- 1022) \<le> 1100"
    using tiny_le_one by linarith
  have v: "times64 1100 (divide64 150 100) = 1650" "minus64 1100 1650 = - 550"
    by (simp_all add: binary64_eval)
  from percentage_concession64 [OF t, of fp_example] t low
  show ?thesis
    by (simp add: Let_def x gross v doubles64)
qed

text \<open>
  C4. For every floorplan and every scenario with concession_type = free_months and
  concession value v, both passes give concessionAmount = grossRent * (v / 12) and
  netEffective = grossRent * ((12 - v) / 12), for every v (nothing restricts v to the
  range from 0 to 12); with v = 0 the figures are those of the same scenario with
  concession_type = none, and with v = 12 the net effective rent is 0.
\<close>

theorem free_months_concession:
  assumes "concession_type sc = ''free_months''"
  shows "(let r = App_figures fp sc; v = concession_value sc in
            concessionAmount r = grossRent r * (v / 12)
          \<and> netEffective r = grossRent r * ((12 - v) / 12)
          \<and> (v = 0 \<longrightarrow> r = App_figures fp (sc\<lparr>concession_type := ''none''\<rparr>))
          \<and> (v = 12 \<longrightarrow> netEffective r = 0))
       \<and> (let r = exportToPDF_figures fp sc; v = concession_value sc in
            concessionAmount r = grossRent r * (v / 12)
          \<and> netEffective r = grossRent r * ((12 - v) / 12)
          \<and> (v = 0 \<longrightarrow> r = exportToPDF_figures fp (sc\<lparr>concession_type := ''none''\<rparr>))
          \<and> (v = 12 \<longrightarrow> netEffective r = 0))"
  using assms by (simp add: App_figures_def exportToPDF_figures_def Let_def)

text \<open>
  No free month, twelve free months, and the spec's example of one free month on a gross
  rent of 1100 (1100 * 11 / 12 = 3025 / 3).
\<close>

theorem free_months_concession_witness:
  "concession_type sc_free_months_0 = ''free_months''
   \<and> concession_value sc_free_months_0 = 0
   \<and> App_figures fp_example sc_free_months_0
       = App_figures fp_example (sc_free_months_0\<lparr>concession_type := ''none''\<rparr>)
   \<and> exportToPDF_figures fp_example sc_free_months_0
       = exportToPDF_figures fp_example (sc_free_months_0\<lparr>concession_type := ''none''\<rparr>)
   \<and> concession_type sc_free_months_12 = ''free_months''
   \<and> concession_value sc_free_months_12 = 12
   \<and> netEffective (App_figures fp_example sc_free_months_12) = 0
   \<and> netEffective (exportToPDF_figures fp_example sc_free_months_12) = 0
   \<and> concession_type sc_free_months_1 = ''free_months''
   \<and> concessionAmount (App_figures fp_example sc_free_months_1) = 275 / 3
   \<and> netEffective (App_figures fp_example sc_free_months_1) = 3025 / 3"
proof -
  have t0: "concession_type sc_free_months_0 = ''free_months''"
    and t1: "concession_type sc_free_months_1 = ''free_months''"
    and t12: "concession_type sc_free_months_12 = ''free_months''"
    by (simp_all add: sample_defs)
  have v: "concession_value sc_free_months_0 = 0" "concession_value sc_free_months_1 = 1"
          "concession_value sc_free_months_12 = 12"
    by (simp_all add: sample_defs)
  have gross: "grossRent (App_figures fp_example sc_free_months_1) = 1100"
    by (simp add: App_figures_def sample_defs)
  show ?thesis
    using t0 t1 t12
      free_months_concession [OF t0, of fp_example]
      free_months_concession [OF t1, of fp_example]
      free_months_concession [OF t12, of fp_example]
    by (simp add: Let_def v gross)
qed

text \<open>
  C7. The calculation inside the PDF export and the one inside the on-screen table are
  the same function of a floorplan and a scenario: all five figures (adjustedBase,
  adjustedAmenity, grossRent, concessionAmount, netEffective) agree on every input.
\<close>

theorem export_and_table_agree:
  "exportToPDF_figures = App_figures"
  by (intro ext) (rule figures_agree)

text \<open>
  The passes differ only in the scenario they are given: while a scenario is edited, the
  table shows the edited values and the export the stored ones. With no edit in
  progress the two lists of figures are equal.
\<close>

lemma rows_agree_when_not_editing:
  "App_floorplanRows floorplans None active = exportToPDF_floorplanData floorplans active"
  by (simp add: App_floorplanRows_def exportToPDF_floorplanData_def App_currentScenario_def
      figures_agree)

text \<open>
  C8. For every floorplan, a scenario with all four adjustments at 0 and
  concession_type = none yields netEffective = base_rent + amenity_rent.
\<close>

theorem identity_scenario:
  assumes "base_rent_pct_adj sc = 0" and "amenity_rent_pct_adj sc = 0"
    and "base_rent_dollar_adj sc = 0" and "amenity_rent_dollar_adj sc = 0"
    and "concession_type sc = ''none''"
  shows "netEffective (App_figures fp sc) = base_rent fp + amenity_rent fp
       \<and> netEffective (exportToPDF_figures fp sc) = base_rent fp + amenity_rent fp"
  using assms by (simp add: App_figures_def exportToPDF_figures_def Let_def)

text \<open>The example floorplan under the identity scenario keeps its 1000 + 100.\<close>

theorem identity_scenario_witness:
  "base_rent_pct_adj sc_identity = 0 \<and> amenity_rent_pct_adj sc_identity = 0
   \<and> base_rent_dollar_adj sc_identity = 0 \<and> amenity_rent_dollar_adj sc_identity = 0
   \<and> concession_type sc_identity = ''none''
   \<and> netEffective (App_figures fp_example sc_identity) = 1100
   \<and> netEffective (exportToPDF_figures fp_example sc_identity) = 1100"
proof -
  have z: "base_rent_pct_adj sc_identity = 0" "amenity_rent_pct_adj sc_identity = 0"
          "base_rent_dollar_adj sc_identity = 0" "amenity_rent_dollar_adj sc_identity = 0"
          "concession_type sc_identity = ''none''"
    by (simp_all add: sample_defs)
  have rents: "base_rent fp_example = 1000" "amenity_rent fp_example = 100"
    by (simp_all add: sample_defs)
  from identity_scenario [OF z, of fp_example] z show ?thesis
    by (simp add: rents)
qed

text \<open>
  C9. For every scenario whose concession_type is none of percentage, dollar and
  free_months (the declared none, or any other string), no branch of the chain fires:
  concessionAmount = 0 and netEffective = grossRent.
\<close>

theorem default_branch:
  assumes "concession_type sc \<noteq> ''percentage''" and "concession_type sc \<noteq> ''dollar''"
    and "concession_type sc \<noteq> ''free_months''"
  shows "concessionAmount (App_figures fp sc) = 0
       \<and> netEffective (App_figures fp sc) = grossRent (App_figures fp sc)
       \<and> concessionAmount (exportToPDF_figures fp sc) = 0
       \<and> netEffective (exportToPDF_figures fp sc) = grossRent (exportToPDF_figures fp sc)"
  using assms by (simp add: App_figures_def exportToPDF_figures_def Let_def)

text \<open>The declared value none, and a value outside the declared four.\<close>

theorem default_branch_witness:
  "concession_type sc_identity = ''none''
   \<and> concessionAmount (App_figures fp_example sc_identity) = 0
   \<and> netEffective (App_figures fp_example sc_identity) = 1100
   \<and> netEffective (exportToPDF_figures fp_example sc_identity) = 1100
   \<and> concession_type sc_unknown_type = ''half_off''
   \<and> concession_value sc_unknown_type = 50
   \<and> concessionAmount (App_figures fp_example sc_unknown_type) = 0
   \<and> netEffective (App_figures fp_example sc_unknown_type) = 1100
   \<and> netEffective (exportToPDF_figures fp_example sc_unknown_type) = 1100"
proof -
  have n: "concession_type sc_identity = ''none''"
    and u: "concession_type sc_unknown_type = ''half_off''"
    and v: "concession_value sc_unknown_type = 50"
    by (simp_all add: sample_defs)
  have n': "concession_type sc_identity \<noteq> ''percentage''"
           "concession_type sc_identity \<noteq> ''dollar''"
           "concession_type sc_identity \<noteq> ''free_months''"
    by (simp_all add: n)
  have u': "concession_type sc_unknown_type \<noteq> ''percentage''"
           "concession_type sc_unknown_type \<noteq> ''dollar''"
           "concession_type sc_unknown_type \<noteq> ''free_months''"
    by (simp_all add: u)
  have gross: "grossRent (App_figures fp_example sc_identity) = 1100"
              "grossRent (exportToPDF_figures fp_example sc_identity) = 1100"
              "grossRent (App_figures fp_example sc_unknown_type) = 1100"
              "grossRent (exportToPDF_figures fp_example sc_unknown_type) = 1100"
    by (simp_all add: App_figures_def exportToPDF_figures_def sample_defs)
  from default_branch [OF n', of fp_example] default_branch [OF u', of fp_example] n u v
  show ?thesis
    by (simp add: gross)
qed




text \<open>
  C5, as the claim states it, fails: a floorplan with a negative unit count, an area of 0
  and negative rents is not refused with InvalidInput; both passes return figures
  computed from it.
\<close>

theorem invalid_floorplan_is_computed:
  "unit_count fp_negative < 0
   \<and> square_footage fp_negative \<le> 0
   \<and> base_rent fp_negative < 0
   \<and> amenity_rent fp_negative < 0
   \<and> App_row fp_negative sc_identity
       = Inr \<lparr>adjustedBase = - 1000, adjustedAmenity = - 100, grossRent = - 1100,
              concessionAmount = 0, netEffective = - 1100\<rparr>
   \<and> App_row fp_negative sc_identity \<noteq> Inl InvalidInput
   \<and> exportToPDF_row fp_negative sc_identity
       = Inr \<lparr>adjustedBase = - 1000, adjustedAmenity = - 100, grossRent = - 1100,
              concessionAmount = 0, netEffective = - 1100\<rparr>
   \<and> exportToPDF_row fp_negative sc_identity \<noteq> Inl InvalidInput"
  by (simp add: App_row_def exportToPDF_row_def App_figures_def exportToPDF_figures_def
      sample_defs)

text \<open>
  C5 (amended). The per-floorplan calculation checks nothing and never fails: for every
  floorplan (whatever its unit_count, square_footage, base_rent and amenity_rent) and
  every scenario, both passes return the computed figures, and no error kind, InvalidInput
  included, is ever the outcome.
\<close>

theorem calculation_never_fails:
  "App_row fp sc = Inr (App_figures fp sc)
   \<and> exportToPDF_row fp sc = Inr (exportToPDF_figures fp sc)
   \<and> App_row fp sc \<noteq> Inl e
   \<and> exportToPDF_row fp sc \<noteq> Inl e"
  by (simp add: App_row_def exportToPDF_row_def)

section \<open>Properties of the aggregation\<close>

text \<open>
  C6. For every floorplan list in which every floorplan has unit_count = 0,
  calculateScenarioResults returns a result (it does not fail) whose avg_rent_per_unit
  and revenue_per_sqft are both 0.
\<close>

theorem zero_units_metrics:
  assumes "\<forall>fp \<in> set floorplans. unit_count fp = 0"
  shows "\<exists>r. calculateScenarioResults floorplans sc = Inr r
              \<and> avg_rent_per_unit r = 0 \<and> revenue_per_sqft r = 0"
proof -
  have units: "sum_list (map unit_count floorplans) = 0"
    using assms by (rule sum_list_all_zero)
  have "\<forall>fp \<in> set floorplans. square_footage fp * unit_count fp = 0"
    using assms by simp
  then have sqft: "sum_list (map (\<lambda>fp. square_footage fp * unit_count fp) floorplans) = 0"
    by (rule sum_list_all_zero)
  show ?thesis
    by (simp add: calculateScenarioResults_def weighted_revenue_total Let_def units sqft)
qed

text \<open>Two floorplans without units, under the scenario of the spec's worked example.\<close>

theorem zero_units_metrics_witness:
  "unit_count fp_no_units_a = 0 \<and> unit_count fp_no_units_b = 0
   \<and> (\<exists>r. calculateScenarioResults [fp_no_units_a, fp_no_units_b] sc_dollar_50 = Inr r
            \<and> avg_rent_per_unit r = 0 \<and> revenue_per_sqft r = 0)"
proof -
  have a: "unit_count fp_no_units_a = 0" and b: "unit_count fp_no_units_b = 0"
    by (simp_all add: sample_defs)
  then have all: "\<forall>fp \<in> set [fp_no_units_a, fp_no_units_b]. unit_count fp = 0"
    by simp
  from zero_units_metrics [OF all, of sc_dollar_50] a b show ?thesis
    by blast
qed

section \<open>The remaining properties in double-precision arithmetic\<close>

text \<open>
  The properties of the adjusted rents, the dollar floor, the free months, the identity
  scenario and the default branch do not depend on the exact arithmetic in which they are
  stated above: each holds of the rounded calculation too, for rents that are doubles
  where a rent is multiplied by 1 or added to 0. That the two rounded passes agree is
  \<open>figures64_agree\<close>.
\<close>

lemma rounded_adjusted_rents:
  "adjustedBase (App_figures64 fp sc)
     = plus64 (times64 (base_rent fp) (plus64 1 (base_rent_pct_adj sc))) (base_rent_dollar_adj sc)
   \<and> adjustedAmenity (App_figures64 fp sc)
     = plus64 (times64 (amenity_rent fp) (plus64 1 (amenity_rent_pct_adj sc)))
         (amenity_rent_dollar_adj sc)
   \<and> grossRent (App_figures64 fp sc)
     = plus64 (adjustedBase (App_figures64 fp sc)) (adjustedAmenity (App_figures64 fp sc))"
  by (simp add: App_figures64_def Let_def)

lemma rounded_dollar_floor:
  assumes "concession_type sc = ''dollar''"
  shows "concessionAmount (App_figures64 fp sc) = concession_value sc
       \<and> netEffective (App_figures64 fp sc)
           = max 0 (minus64 (grossRent (App_figures64 fp sc)) (concession_value sc))
       \<and> 0 \<le> netEffective (App_figures64 fp sc)"
  using assms by (simp add: App_figures64_def Let_def)

lemma rounded_free_months:
  assumes "concession_type sc = ''free_months''"
  shows "concessionAmount (App_figures64 fp sc)
           = times64 (grossRent (App_figures64 fp sc)) (divide64 (concession_value sc) 12)
       \<and> netEffective (App_figures64 fp sc)
           = times64 (grossRent (App_figures64 fp sc))
               (divide64 (minus64 12 (concession_value sc)) 12)
       \<and> (concession_value sc = 0
            \<longrightarrow> App_figures64 fp sc = App_figures64 fp (sc\<lparr>concession_type := ''none''\<rparr>))
       \<and> (concession_value sc = 12 \<longrightarrow> netEffective (App_figures64 fp sc) = 0)"
proof -
  define g where "g = plus64
     (plus64 (times64 (base_rent fp) (plus64 1 (base_rent_pct_adj sc))) (base_rent_dollar_adj sc))
     (plus64 (times64 (amenity_rent fp) (plus64 1 (amenity_rent_pct_adj sc)))
        (amenity_rent_dollar_adj sc))"
  have "is_binary64 g" by (simp add: g_def plus64_def is_binary64_round)
  then have "times64 g 1 = g" by (rule times64_one)
  then show ?thesis
    using assms
    by (simp add: App_figures64_def Let_def small_constants64 times64_zero flip: g_def)
qed

lemma rounded_identity:
  assumes "base_rent_pct_adj sc = 0" and "amenity_rent_pct_adj sc = 0"
    and "base_rent_dollar_adj sc = 0" and "amenity_rent_dollar_adj sc = 0"
    and "concession_type sc = ''none''"
    and "is_binary64 (base_rent fp)" and "is_binary64 (amenity_rent fp)"
  shows "netEffective (App_figures64 fp sc) = plus64 (base_rent fp) (amenity_rent fp)"
  using assms
  by (simp add: App_figures64_def Let_def small_constants64 times64_one plus64_zero)

lemma rounded_default_case:
  assumes "concession_type sc \<noteq> ''percentage''" and "concession_type sc \<noteq> ''dollar''"
    and "concession_type sc \<noteq> ''free_months''"
  shows "concessionAmount (App_figures64 fp sc) = 0
       \<and> netEffective (App_figures64 fp sc) = grossRent (App_figures64 fp sc)"
  using assms by (simp add: App_figures64_def Let_def)

end
